theory Spec2Isabelle
  imports Complex_Main "HOL-Library.AList"
begin

section \<open>Reaction lookup (src/data/reactionLogic.ts)\<close>

text \<open>
  JavaScript numbers are modelled as \<^typ>\<open>real\<close>: the finite doubles, with rounding left out.
  The literals 0.7, 0.8, 0.9 and 1.0 of the source are the reals of the same name.
  Strings are \<^typ>\<open>string\<close>. The source's \<^verbatim>\<open>toLowerCase\<close> is modelled on the ASCII letters
  A to Z, every other character is left as it is: no character outside ASCII lower-cases
  to a letter of the three category names the \<^verbatim>\<open>switch\<close> compares with, so the branch taken is
  the same.
\<close>

definition toLowerChar :: "char \<Rightarrow> char" where
  "toLowerChar c =
     (if 65 \<le> (of_char c :: nat) \<and> (of_char c :: nat) \<le> 90
      then char_of ((of_char c :: nat) + 32) else c)"

definition toLowerCase :: "string \<Rightarrow> string" where
  "toLowerCase s = map toLowerChar s"

text \<open>Only the fields \<^verbatim>\<open>id\<close> and \<^verbatim>\<open>category\<close> of an experiment are read.\<close>

record Experiment =
  exp_id :: string
  exp_category :: string

record ReactionEffect =
  effect_type :: string
  intensity :: real

record ReactionResult =
  outcomeText :: string
  effects :: "ReactionEffect list"

text \<open>
  \<^verbatim>\<open>reactions\<close> is a plain object, created by \<^verbatim>\<open>{}\<close>: its own properties, and a prototype.
  The prototype is \<^verbatim>\<open>Object.prototype\<close> (\<^const>\<open>None\<close> below) until an assignment to the key
  \<^verbatim>\<open>__proto__\<close> reaches the setter \<^verbatim>\<open>Object.prototype\<close> holds for that key, which makes the
  assigned object the prototype and stores no own property. Every other assignment stores an
  own property: the data properties found along the prototype chain are writable.
\<close>

record PlainObject =
  own_properties :: "string \<rightharpoonup> ReactionResult"
  prototype :: "ReactionResult option"

definition empty_object :: PlainObject where
  "empty_object = \<lparr>own_properties = Map.empty, prototype = None\<rparr>"

definition set_property :: "PlainObject \<Rightarrow> string \<Rightarrow> ReactionResult \<Rightarrow> PlainObject" where
  "set_property obj key v =
     (if key = ''__proto__'' then obj\<lparr>prototype := Some v\<rparr>
      else obj\<lparr>own_properties := (own_properties obj)(key \<mapsto> v)\<rparr>)"

text \<open>
  The values a property read of such an object can give: a stored result, the two fields of
  a result that has become the prototype, a function inherited from \<^verbatim>\<open>Object.prototype\<close>
  (named by its key), and \<^verbatim>\<open>Object.prototype\<close> itself. \<^verbatim>\<open>undefined\<close> is \<^const>\<open>None\<close>.
\<close>

datatype jsvalue =
    ResultObject ReactionResult
  | StringValue string
  | ArrayValue "ReactionEffect list"
  | BuiltinFunction string
  | ObjectPrototype

definition Object_prototype_functions :: "string list" where
  "Object_prototype_functions =
     [''constructor'', ''__defineGetter__'', ''__defineSetter__'', ''hasOwnProperty'',
      ''__lookupGetter__'', ''__lookupSetter__'', ''isPrototypeOf'', ''propertyIsEnumerable'',
      ''toString'', ''valueOf'', ''toLocaleString'']"

definition inherited :: "string \<Rightarrow> jsvalue option" where
  "inherited key =
     (if key \<in> set Object_prototype_functions then Some (BuiltinFunction key) else None)"

text \<open>
  \<^verbatim>\<open>obj[key]\<close>: the getter of \<^verbatim>\<open>__proto__\<close> gives the prototype; any other key is looked up
  among the own properties, then along the prototype chain.
\<close>

definition get_property :: "PlainObject \<Rightarrow> string \<Rightarrow> jsvalue option" where
  "get_property obj key =
     (if key = ''__proto__'' then
        (case prototype obj of
           None \<Rightarrow> Some ObjectPrototype
         | Some r \<Rightarrow> Some (ResultObject r))
      else
        (case own_properties obj key of
           Some v \<Rightarrow> Some (ResultObject v)
         | None \<Rightarrow>
             (case prototype obj of
                None \<Rightarrow> inherited key
              | Some r \<Rightarrow>
                  if key = ''outcomeText'' then Some (StringValue (outcomeText r))
                  else if key = ''effects'' then Some (ArrayValue (effects r))
                  else inherited key)))"

text \<open>Truthiness: \<^verbatim>\<open>undefined\<close> and the empty string are falsy, objects and functions truthy.\<close>

definition truthy :: "jsvalue option \<Rightarrow> bool" where
  "truthy v =
     (case v of
        None \<Rightarrow> False
      | Some (StringValue s) \<Rightarrow> s \<noteq> []
      | Some _ \<Rightarrow> True)"

text \<open>
  The body of the \<^verbatim>\<open>forEach\<close> callback: the \<^verbatim>\<open>switch\<close> on the lower-cased category, each
  branch assigning its literal to \<^verbatim>\<open>reactions[key]\<close>.
\<close>

definition forEach_body :: "Experiment \<Rightarrow> PlainObject \<Rightarrow> PlainObject" where
  "forEach_body exper reactions =
     (let key = exp_id exper; c = toLowerCase (exp_category exper) in
      if c = ''acid-base'' then
        set_property reactions key
          \<lparr>outcomeText = ''Neutralization reaction occurred'',
           effects = [\<lparr>effect_type = ''color-change'', intensity = 0.8\<rparr>]\<rparr>
      else if c = ''precipitation'' then
        set_property reactions key
          \<lparr>outcomeText = ''Precipitation reaction occurred'',
           effects = [\<lparr>effect_type = ''precipitation'', intensity = 0.9\<rparr>]\<rparr>
      else if c = ''combustion'' then
        set_property reactions key
          \<lparr>outcomeText = ''Combustion reaction occurred'',
           effects = [\<lparr>effect_type = ''heat-release'', intensity = 1.0\<rparr>]\<rparr>
      else
        set_property reactions key
          \<lparr>outcomeText = ''Reaction occurred'',
           effects = [\<lparr>effect_type = ''color-change'', intensity = 0.7\<rparr>]\<rparr>)"

definition generateReactionLogic :: "Experiment list \<Rightarrow> PlainObject" where
  "generateReactionLogic experiments = fold forEach_body experiments empty_object"

text \<open>
  \<^verbatim>\<open>checkReactionTrigger\<close> returns what \<^verbatim>\<open>reactionLogic[experimentId]\<close> reads when that is
  truthy and at least two chemical ids are given; \<^const>\<open>None\<close> is its \<^verbatim>\<open>null\<close>.
\<close>

definition checkReactionTrigger ::
  "string list \<Rightarrow> PlainObject \<Rightarrow> string \<Rightarrow> jsvalue option" where
  "checkReactionTrigger chemicalIds reactionLogic experimentId =
     (if length chemicalIds \<ge> 2 \<and> truthy (get_property reactionLogic experimentId)
      then get_property reactionLogic experimentId
      else None)"

text \<open>The result an object holds for a key: as an own property, or as its prototype.\<close>

definition stored :: "PlainObject \<Rightarrow> string \<Rightarrow> ReactionResult option" where
  "stored obj key =
     (if key = ''__proto__'' then prototype obj else own_properties obj key)"

subsection \<open>The documented table\<close>

text \<open>
  The table as the specification words it: a match on the category that ignores case, against
  acid-base, precipitation and combustion, and a generic result for everything else.
\<close>

definition same_ignoring_case :: "string \<Rightarrow> string \<Rightarrow> bool" where
  "same_ignoring_case a b \<longleftrightarrow> toLowerCase a = toLowerCase b"

definition documented_result :: "string \<Rightarrow> ReactionResult" where
  "documented_result category =
     (if same_ignoring_case category ''acid-base'' then
        \<lparr>outcomeText = ''Neutralization reaction occurred'',
         effects = [\<lparr>effect_type = ''color-change'', intensity = 0.8\<rparr>]\<rparr>
      else if same_ignoring_case category ''precipitation'' then
        \<lparr>outcomeText = ''Precipitation reaction occurred'',
         effects = [\<lparr>effect_type = ''precipitation'', intensity = 0.9\<rparr>]\<rparr>
      else if same_ignoring_case category ''combustion'' then
        \<lparr>outcomeText = ''Combustion reaction occurred'',
         effects = [\<lparr>effect_type = ''heat-release'', intensity = 1.0\<rparr>]\<rparr>
      else
        \<lparr>outcomeText = ''Reaction occurred'',
         effects = [\<lparr>effect_type = ''color-change'', intensity = 0.7\<rparr>]\<rparr>)"

section \<open>Vectors\<close>

text \<open>
  A three.js \<^verbatim>\<open>Vector3\<close> as a value; \<^verbatim>\<open>clone\<close> is the identity on values. The operations are
  the ones the repository calls, with three.js's meaning.
\<close>

record Vector3 =
  vec_x :: real
  vec_y :: real
  vec_z :: real

definition zero_Vector3 :: Vector3 where
  "zero_Vector3 = \<lparr>vec_x = 0, vec_y = 0, vec_z = 0\<rparr>"

definition add :: "Vector3 \<Rightarrow> Vector3 \<Rightarrow> Vector3" where
  "add a b = \<lparr>vec_x = vec_x a + vec_x b, vec_y = vec_y a + vec_y b, vec_z = vec_z a + vec_z b\<rparr>"

definition subVectors :: "Vector3 \<Rightarrow> Vector3 \<Rightarrow> Vector3" where
  "subVectors a b = \<lparr>vec_x = vec_x a - vec_x b, vec_y = vec_y a - vec_y b, vec_z = vec_z a - vec_z b\<rparr>"

definition multiplyScalar :: "Vector3 \<Rightarrow> real \<Rightarrow> Vector3" where
  "multiplyScalar a k = \<lparr>vec_x = vec_x a * k, vec_y = vec_y a * k, vec_z = vec_z a * k\<rparr>"

definition lerpVectors :: "Vector3 \<Rightarrow> Vector3 \<Rightarrow> real \<Rightarrow> Vector3" where
  "lerpVectors a b alpha =
     \<lparr>vec_x = vec_x a + (vec_x b - vec_x a) * alpha,
      vec_y = vec_y a + (vec_y b - vec_y a) * alpha,
      vec_z = vec_z a + (vec_z b - vec_z a) * alpha\<rparr>"

definition distanceToSquared :: "Vector3 \<Rightarrow> Vector3 \<Rightarrow> real" where
  "distanceToSquared a b =
     (vec_x a - vec_x b) * (vec_x a - vec_x b)
     + (vec_y a - vec_y b) * (vec_y a - vec_y b)
     + (vec_z a - vec_z b) * (vec_z a - vec_z b)"

definition distanceTo :: "Vector3 \<Rightarrow> Vector3 \<Rightarrow> real" where
  "distanceTo a b = sqrt (distanceToSquared a b)"

definition vec_length :: "Vector3 \<Rightarrow> real" where
  "vec_length a = sqrt (vec_x a * vec_x a + vec_y a * vec_y a + vec_z a * vec_z a)"

text \<open>\<^verbatim>\<open>normalize\<close> divides by the length, or by 1 when the length is 0.\<close>

definition normalize_Vector3 :: "Vector3 \<Rightarrow> Vector3" where
  "normalize_Vector3 a = multiplyScalar a (1 / (if vec_length a = 0 then 1 else vec_length a))"

section \<open>Drag-drop registry (DragDropManager)\<close>

text \<open>
  An \<^verbatim>\<open>Object3D\<close> is a reference into the scene; its position and its children live in the
  scene, which the handlers mutate in place. A \<^verbatim>\<open>Map\<close> keeps its keys in insertion order and
  \<^verbatim>\<open>set\<close> on a present key replaces the value where it stands: an association list with
  \<^const>\<open>AList.update\<close> and \<^const>\<open>AList.delete\<close>.
\<close>

type_synonym Object3D = nat

datatype drag_type = equipment | chemical | tool

record Constraints =
  minY :: "real option"
  maxY :: "real option"
  minX :: "real option"
  maxX :: "real option"
  minZ :: "real option"
  maxZ :: "real option"

record DragObject =
  drag_id :: string
  object :: Object3D
  dtype :: drag_type
  initialPosition :: Vector3
  isDraggable :: bool
  constraints :: "Constraints option"

record DragDropState =
  draggedObject :: "DragObject option"
  hoveredObject :: "DragObject option"
  registeredObjects :: "(string \<times> DragObject) list"
  isDragging :: bool
  position :: "Object3D \<Rightarrow> Vector3"
  children :: "Object3D \<Rightarrow> Object3D list"
  cursor :: string

definition registerObject :: "DragObject \<Rightarrow> DragDropState \<Rightarrow> DragDropState" where
  "registerObject obj st =
     st\<lparr>registeredObjects := AList.update (drag_id obj) obj (registeredObjects st)\<rparr>"

definition unregisterObject :: "string \<Rightarrow> DragDropState \<Rightarrow> DragDropState" where
  "unregisterObject ident st =
     st\<lparr>registeredObjects := AList.delete ident (registeredObjects st)\<rparr>"

text \<open>
  \<^verbatim>\<open>raycaster.intersectObjects(objects, true)\<close> belongs to three.js. It is a parameter: from
  the objects it is given, the objects hit by the pointer ray, nearest first.
\<close>

type_synonym raycast = "Object3D list \<Rightarrow> Object3D list"

definition getIntersection :: "raycast \<Rightarrow> DragDropState \<Rightarrow> Object3D list" where
  "getIntersection intersectObjects st =
     intersectObjects (map (\<lambda>obj. object obj) (map snd (registeredObjects st)))"

text \<open>
  The handle a hit resolves to, as both \<^verbatim>\<open>handleMouseDown\<close> (the \<^verbatim>\<open>for\<close> loop that breaks at
  the first match) and \<^verbatim>\<open>handleMouseMove\<close> (\<^verbatim>\<open>find\<close>) compute it: the first registered handle
  whose object is the nearest hit or has it among its children.
\<close>

definition resolvePointer :: "raycast \<Rightarrow> DragDropState \<Rightarrow> DragObject option" where
  "resolvePointer intersectObjects st =
     (let intersects = getIntersection intersectObjects st in
      if length intersects > 0 then
        List.find (\<lambda>obj. object obj = hd intersects
                      \<or> hd intersects \<in> set (children st (object obj)))
          (map snd (registeredObjects st))
      else None)"

text \<open>
  \<^verbatim>\<open>startDrag\<close> also writes the clone of the current position into the handle's
  \<^verbatim>\<open>initialPosition\<close>; nothing reads that field afterwards.
\<close>

definition startDrag :: "DragObject \<Rightarrow> DragDropState \<Rightarrow> DragDropState" where
  "startDrag obj st =
     (if \<not> isDraggable obj then st
      else st\<lparr>draggedObject := Some (obj\<lparr>initialPosition := position st (object obj)\<rparr>),
              isDragging := True\<rparr>)"

definition clampMin :: "real option \<Rightarrow> real \<Rightarrow> real" where
  "clampMin bound v = (case bound of None \<Rightarrow> v | Some m \<Rightarrow> max m v)"

definition clampMax :: "real option \<Rightarrow> real \<Rightarrow> real" where
  "clampMax bound v = (case bound of None \<Rightarrow> v | Some m \<Rightarrow> min m v)"

text \<open>
  \<^verbatim>\<open>endDrag\<close>: the six guarded assignments in the source's order (\<^const>\<open>clampMin\<close> is
  \<^verbatim>\<open>if (c.min !== undefined) pos = Math.max(c.min, pos)\<close>, \<^const>\<open>clampMax\<close> the same with
  \<^verbatim>\<open>Math.min\<close>), then the two state updates.
\<close>

definition endDrag :: "DragDropState \<Rightarrow> DragDropState" where
  "endDrag st =
     (let st1 =
        (case draggedObject st of
           None \<Rightarrow> st
         | Some d \<Rightarrow>
             (case constraints d of
                None \<Rightarrow> st
              | Some c \<Rightarrow>
                  (let pos = position st (object d);
                       pos = pos\<lparr>vec_y := clampMin (minY c) (vec_y pos)\<rparr>;
                       pos = pos\<lparr>vec_y := clampMax (maxY c) (vec_y pos)\<rparr>;
                       pos = pos\<lparr>vec_x := clampMin (minX c) (vec_x pos)\<rparr>;
                       pos = pos\<lparr>vec_x := clampMax (maxX c) (vec_x pos)\<rparr>;
                       pos = pos\<lparr>vec_z := clampMin (minZ c) (vec_z pos)\<rparr>;
                       pos = pos\<lparr>vec_z := clampMax (maxZ c) (vec_z pos)\<rparr>
                   in st\<lparr>position := (position st)(object d := pos)\<rparr>)))
      in st1\<lparr>draggedObject := None, isDragging := False\<rparr>)"

definition handleMouseDown :: "bool \<Rightarrow> raycast \<Rightarrow> DragDropState \<Rightarrow> DragDropState" where
  "handleMouseDown enabled intersectObjects st =
     (if \<not> enabled then st
      else (case resolvePointer intersectObjects st of
              None \<Rightarrow> st
            | Some dragObject \<Rightarrow> startDrag dragObject st))"

text \<open>
  The coordinates of the vector that \<^verbatim>\<open>handleMouseMove\<close> tests with \<^verbatim>\<open>isNaN\<close> are numbers
  that may be NaN.
\<close>

datatype number = NaN | Num real

record NVector3 =
  nx :: number
  ny :: number
  nz :: number

definition isNaN :: "number \<Rightarrow> bool" where
  "isNaN v = (case v of NaN \<Rightarrow> True | Num _ \<Rightarrow> False)"

definition num_value :: "number \<Rightarrow> real" where
  "num_value v = (case v of NaN \<Rightarrow> 0 | Num r \<Rightarrow> r)"

definition new_Vector3 :: NVector3 where
  "new_Vector3 = \<lparr>nx = Num 0, ny = Num 0, nz = Num 0\<rparr>"

text \<open>
  The methods of three.js the drag branch calls. \<^verbatim>\<open>setFromNormalAndCoplanarPoint\<close> is a method
  of \<^verbatim>\<open>Plane\<close>; a \<^verbatim>\<open>Vector3\<close> has no property of that name, and calling the \<^verbatim>\<open>undefined\<close> it
  reads there throws a \<^verbatim>\<open>TypeError\<close>, which the handler does not catch.
\<close>

datatype three_class = Vector3_class | Plane_class

datatype thrown = TypeError string

record Plane =
  plane_normal :: Vector3
  plane_constant :: real

definition dot :: "Vector3 \<Rightarrow> Vector3 \<Rightarrow> real" where
  "dot a b = vec_x a * vec_x b + vec_y a * vec_y b + vec_z a * vec_z b"

definition setFromNormalAndCoplanarPoint ::
  "three_class \<Rightarrow> Vector3 \<Rightarrow> Vector3 \<Rightarrow> thrown + Plane" where
  "setFromNormalAndCoplanarPoint receiver normal point =
     (case receiver of
        Plane_class \<Rightarrow> Inr \<lparr>plane_normal = normal, plane_constant = - dot point normal\<rparr>
      | Vector3_class \<Rightarrow> Inl (TypeError ''setFromNormalAndCoplanarPoint is not a function''))"

text \<open>
  \<^verbatim>\<open>handleMouseMove\<close>. The camera and the pointer ray enter through three parameters: the
  raycaster of \<^const>\<open>getIntersection\<close>, the vector \<open>dragPlaneNormal\<close> that line 149 computes from
  the camera, and \<open>intersectPlane\<close>, what \<^verbatim>\<open>ray.intersectPlane(plane, intersection)\<close> does to its
  target vector (the value it returns is dropped by the source). The plane argument of line
  154 is evaluated before that call, on a receiver made by \<^verbatim>\<open>new Vector3()\<close>.
  \<^const>\<open>num_value\<close> is only applied behind the \<^const>\<open>isNaN\<close> guard; \<open>dragPlaneY\<close> is the state of
  line 61, never set again.
\<close>

definition dragPlaneY :: real where
  "dragPlaneY = 1"

definition handleMouseMove ::
  "bool \<Rightarrow> raycast \<Rightarrow> Vector3 \<Rightarrow> (Plane \<Rightarrow> NVector3 \<Rightarrow> NVector3) \<Rightarrow> DragDropState
     \<Rightarrow> thrown + DragDropState" where
  "handleMouseMove enabled intersectObjects dragPlaneNormal intersectPlane st =
     (if \<not> enabled then Inr st
      else
        (case (isDragging st, draggedObject st) of
           (True, Some d) \<Rightarrow>
             (let dragPlanePoint = \<lparr>vec_x = 0, vec_y = dragPlaneY, vec_z = 0\<rparr>;
                  intersection = new_Vector3
              in case setFromNormalAndCoplanarPoint Vector3_class dragPlaneNormal dragPlanePoint of
                   Inl err \<Rightarrow> Inl err
                 | Inr plane \<Rightarrow>
                     (let intersection = intersectPlane plane intersection
                      in if \<not> isNaN (nx intersection) \<and> \<not> isNaN (ny intersection)
                            \<and> \<not> isNaN (nz intersection)
                         then Inr (st\<lparr>position := (position st)(object d :=
                                     \<lparr>vec_x = num_value (nx intersection),
                                      vec_y = num_value (ny intersection),
                                      vec_z = num_value (nz intersection)\<rparr>)\<rparr>)
                         else Inr st))
         | _ \<Rightarrow>
             (let newHoveredObject = resolvePointer intersectObjects st in
              Inr (st\<lparr>hoveredObject := newHoveredObject,
                       cursor := (case newHoveredObject of
                                    Some h \<Rightarrow> if isDraggable h then ''grab'' else ''default''
                                  | None \<Rightarrow> ''default'')\<rparr>))))"

definition handleMouseUp :: "DragDropState \<Rightarrow> DragDropState" where
  "handleMouseUp st = (if isDragging st then endDrag st else st)"

text \<open>The registry states the provider can reach: from the empty map, by its two operations.\<close>

datatype registry_op = Register DragObject | Unregister string

fun apply_registry_op :: "registry_op \<Rightarrow> DragDropState \<Rightarrow> DragDropState" where
  "apply_registry_op (Register obj) st = registerObject obj st"
| "apply_registry_op (Unregister ident) st = unregisterObject ident st"

fun registers :: "string \<Rightarrow> registry_op \<Rightarrow> bool" where
  "registers ident (Register obj) = (drag_id obj = ident)"
| "registers ident (Unregister _) = False"

subsection \<open>Bounds, as the specification words them\<close>

definition within_bounds :: "real option \<Rightarrow> real option \<Rightarrow> real \<Rightarrow> bool" where
  "within_bounds lo hi v \<longleftrightarrow>
     (case lo of None \<Rightarrow> True | Some m \<Rightarrow> m \<le> v) \<and> (case hi of None \<Rightarrow> True | Some m \<Rightarrow> v \<le> m)"

definition proper_interval :: "real option \<Rightarrow> real option \<Rightarrow> bool" where
  "proper_interval lo hi \<longleftrightarrow>
     (case lo of None \<Rightarrow> True | Some m \<Rightarrow> (case hi of None \<Rightarrow> True | Some n \<Rightarrow> m \<le> n))"

section \<open>Liquid particle simulator (physics/LiquidSystem.tsx)\<close>

record LiquidParticle =
  p_id :: string
  p_position :: Vector3
  p_velocity :: Vector3
  p_color :: string
  p_size :: real
  p_lifetime :: real
  p_age :: real
  p_isPouring :: bool

record LiquidStream =
  s_id :: string
  sourcePosition :: Vector3
  targetPosition :: Vector3
  particles :: "LiquidParticle list"
  isActive :: bool
  flowRate :: real
  s_color :: string

text \<open>
  What the callbacks read and write besides the two particle populations: the results
  \<^verbatim>\<open>Math.random()\<close> gives in turn (\<open>randoms\<close>, with the number already \<open>drawn\<close>), the
  counter behind the particle ids, and the particles that \<^verbatim>\<open>createSplash\<close> has handed to
  \<^verbatim>\<open>setSplashParticles\<close> to be appended to the splash population.
\<close>

record Env =
  randoms :: "nat \<Rightarrow> real"
  drawn :: nat
  particleIdCounter :: nat
  queuedSplash :: "LiquidParticle list"

definition Math_random :: "Env \<Rightarrow> real \<times> Env" where
  "Math_random env = (randoms env (drawn env), env\<lparr>drawn := drawn env + 1\<rparr>)"

text \<open>The decimal digits of a counter, as the template string of an id prints them.\<close>

definition digit_char :: "nat \<Rightarrow> char" where
  "digit_char d = ''0123456789'' ! d"

fun decimal :: "nat \<Rightarrow> string" where
  "decimal n = (if 10 \<le> n then decimal (n div 10) @ [digit_char (n mod 10)] else [digit_char n])"

definition createParticle ::
  "Vector3 \<Rightarrow> Vector3 \<Rightarrow> string \<Rightarrow> real \<Rightarrow> real \<Rightarrow> Env \<Rightarrow> LiquidParticle \<times> Env" where
  "createParticle pos velocity color psize lifetime env =
     (\<lparr>p_id = ''particle-'' @ decimal (particleIdCounter env),
       p_position = pos, p_velocity = velocity, p_color = color, p_size = psize,
       p_lifetime = lifetime, p_age = 0, p_isPouring = True\<rparr>,
      env\<lparr>particleIdCounter := particleIdCounter env + 1\<rparr>)"

definition createStreamParticle ::
  "Vector3 \<Rightarrow> LiquidStream \<Rightarrow> real \<Rightarrow> Env \<Rightarrow> LiquidParticle \<times> Env" where
  "createStreamParticle gravity stream progress env =
     (let streamPosition = lerpVectors (sourcePosition stream) (targetPosition stream) progress;
          (r1, env) = Math_random env;
          (r2, env) = Math_random env;
          randomOffset = \<lparr>vec_x = (r1 - 0.5) * 0.02, vec_y = 0, vec_z = (r2 - 0.5) * 0.02\<rparr>;
          streamPosition = add streamPosition randomOffset;
          direction = normalize_Vector3 (subVectors (targetPosition stream) (sourcePosition stream));
          (r3, env) = Math_random env;
          velocity = multiplyScalar direction (2 + r3 * 0.5);
          velocity = add velocity (multiplyScalar gravity 0.1);
          (r4, env) = Math_random env;
          (r5, env) = Math_random env
      in createParticle streamPosition velocity (s_color stream)
           (0.015 + r4 * 0.01) (1.5 + r5 * 0.5) env)"

definition createSplashParticle ::
  "Vector3 \<Rightarrow> string \<Rightarrow> nat \<Rightarrow> nat \<Rightarrow> Env \<Rightarrow> LiquidParticle \<times> Env" where
  "createSplashParticle pos color count i env =
     (let angle = (pi * 2 * real i) / real count;
          (r1, env) = Math_random env;
          (r2, env) = Math_random env;
          (r3, env) = Math_random env;
          velocity = \<lparr>vec_x = cos angle * (0.5 + r1 * 0.5),
                      vec_y = 1 + r2 * 0.5,
                      vec_z = sin angle * (0.5 + r3 * 0.5)\<rparr>;
          (r4, env) = Math_random env;
          (r5, env) = Math_random env
      in createParticle pos velocity color (0.01 + r4 * 0.02) (0.5 + r5 * 0.5) env)"

fun splashLoop ::
  "Vector3 \<Rightarrow> string \<Rightarrow> nat \<Rightarrow> nat list \<Rightarrow> Env \<Rightarrow> LiquidParticle list \<times> Env" where
  "splashLoop pos color count [] env = ([], env)"
| "splashLoop pos color count (i # rest) env =
     (let (p, env) = createSplashParticle pos color count i env;
          (ps, env) = splashLoop pos color count rest env
      in (p # ps, env))"

definition createSplash :: "Vector3 \<Rightarrow> string \<Rightarrow> nat \<Rightarrow> Env \<Rightarrow> Env" where
  "createSplash pos color count env =
     (let (newParticles, env) = splashLoop pos color count [0..<count] env
      in env\<lparr>queuedSplash := queuedSplash env @ newParticles\<rparr>)"

text \<open>\<^verbatim>\<open>stopPour\<close> makes two updates of the stream list: one at once, one from its 3000 ms timer.\<close>

definition stopPour :: "string \<Rightarrow> LiquidStream list \<Rightarrow> LiquidStream list" where
  "stopPour streamId prev =
     map (\<lambda>stream. if s_id stream = streamId then stream\<lparr>isActive := False\<rparr> else stream) prev"

definition stopPour_timeout :: "string \<Rightarrow> LiquidStream list \<Rightarrow> LiquidStream list" where
  "stopPour_timeout streamId prev = filter (\<lambda>stream. s_id stream \<noteq> streamId) prev"

text \<open>Lines 204 to 213 of the frame callback: the new particles of an active stream.\<close>

fun pushNewParticles ::
  "Vector3 \<Rightarrow> LiquidStream \<Rightarrow> nat \<Rightarrow> LiquidParticle list \<Rightarrow> Env \<Rightarrow> LiquidParticle list \<times> Env" where
  "pushNewParticles gravity stream 0 updatedParticles env = (updatedParticles, env)"
| "pushNewParticles gravity stream (Suc n) updatedParticles env =
     (let (progress, env) = Math_random env;
          (p, env) = createStreamParticle gravity stream progress env
      in pushNewParticles gravity stream n (updatedParticles @ [p]) env)"

definition addNewParticles ::
  "Vector3 \<Rightarrow> real \<Rightarrow> real \<Rightarrow> LiquidStream \<Rightarrow> Env \<Rightarrow> LiquidParticle list \<times> Env" where
  "addNewParticles gravity maxParticles delta stream env =
     (let updatedParticles = particles stream in
      if isActive stream \<and> real (length updatedParticles) < maxParticles / 10 then
        (let particlesToAdd = \<lfloor>flowRate stream * delta * 5\<rfloor>
         in pushNewParticles gravity stream (nat particlesToAdd) updatedParticles env)
      else (updatedParticles, env))"

text \<open>Lines 217 to 249: the callback of \<^verbatim>\<open>map\<close>; \<^const>\<open>None\<close> is its \<^verbatim>\<open>null\<close>.\<close>

definition updateParticle ::
  "Vector3 \<Rightarrow> real \<Rightarrow> LiquidStream \<Rightarrow> LiquidParticle \<Rightarrow> Env \<Rightarrow> LiquidParticle option \<times> Env" where
  "updateParticle gravity delta stream particle env =
     (let newPosition = p_position particle;
          newVelocity = p_velocity particle;
          newVelocity = add newVelocity (multiplyScalar gravity delta);
          newPosition = add newPosition (multiplyScalar newVelocity delta);
          distanceToTarget = distanceTo newPosition (targetPosition stream)
      in if distanceToTarget < 0.1 then
           (let (r, env) = Math_random env
            in (None, if r < 0.3 then createSplash newPosition (s_color stream) 3 env else env))
         else
           (let newAge = p_age particle + delta
            in if newAge > p_lifetime particle then (None, env)
               else (Some (particle\<lparr>p_position := newPosition, p_velocity := newVelocity,
                                      p_age := newAge\<rparr>), env)))"

fun mapParticles ::
  "Vector3 \<Rightarrow> real \<Rightarrow> LiquidStream \<Rightarrow> LiquidParticle list \<Rightarrow> Env
     \<Rightarrow> LiquidParticle option list \<times> Env" where
  "mapParticles gravity delta stream [] env = ([], env)"
| "mapParticles gravity delta stream (particle # rest) env =
     (let (r, env) = updateParticle gravity delta stream particle env;
          (rs, env) = mapParticles gravity delta stream rest env
      in (r # rs, env))"

definition updateStream ::
  "Vector3 \<Rightarrow> real \<Rightarrow> real \<Rightarrow> LiquidStream \<Rightarrow> Env \<Rightarrow> LiquidStream \<times> Env" where
  "updateStream gravity maxParticles delta stream env =
     (if \<not> isActive stream \<and> length (particles stream) = 0 then (stream, env)
      else
        (let (updatedParticles, env) = addNewParticles gravity maxParticles delta stream env;
             (results, env) = mapParticles gravity delta stream updatedParticles env;
             updatedParticles = List.map_filter (\<lambda>p. p) results
         in (stream\<lparr>particles := updatedParticles\<rparr>, env)))"

fun updateStreams ::
  "Vector3 \<Rightarrow> real \<Rightarrow> real \<Rightarrow> LiquidStream list \<Rightarrow> Env \<Rightarrow> LiquidStream list \<times> Env" where
  "updateStreams gravity maxParticles delta [] env = ([], env)"
| "updateStreams gravity maxParticles delta (stream # rest) env =
     (let (s, env) = updateStream gravity maxParticles delta stream env;
          (ss, env) = updateStreams gravity maxParticles delta rest env
      in (s # ss, env))"

text \<open>Lines 260 to 292: the callback of the splash population's \<^verbatim>\<open>map\<close>.\<close>

definition updateSplashParticle ::
  "Vector3 \<Rightarrow> real \<Rightarrow> LiquidParticle \<Rightarrow> LiquidParticle option" where
  "updateSplashParticle gravity delta particle =
     (let newPosition = p_position particle;
          newVelocity = p_velocity particle;
          newVelocity = add newVelocity (multiplyScalar gravity (delta * 1.5));
          newVelocity = multiplyScalar newVelocity 0.98;
          newPosition = add newPosition (multiplyScalar newVelocity delta);
          (newPosition, newVelocity) =
            (if vec_y newPosition < 0
             then (newPosition\<lparr>vec_y := 0\<rparr>, multiplyScalar (newVelocity\<lparr>vec_y := 0\<rparr>) 0.5)
             else (newPosition, newVelocity));
          newAge = p_age particle + delta
      in if newAge > p_lifetime particle then None
         else Some (particle\<lparr>p_position := newPosition, p_velocity := newVelocity,
                              p_age := newAge\<rparr>))"

definition updateSplashParticles ::
  "Vector3 \<Rightarrow> real \<Rightarrow> LiquidParticle list \<Rightarrow> LiquidParticle list" where
  "updateSplashParticles gravity delta prev =
     List.map_filter (\<lambda>p. p) (map (updateSplashParticle gravity delta) prev)"

text \<open>
  The frame callback hands one updater to \<^verbatim>\<open>setStreams\<close> and one to \<^verbatim>\<open>setSplashParticles\<close>.
  React keeps the updaters of a state in a queue and runs them in order when it renders the
  provider: the stream updater runs, and the appends its \<^verbatim>\<open>createSplash\<close> calls hand to
  \<^verbatim>\<open>setSplashParticles\<close> stand in the queue of the splash population behind the splash
  updater of the callback. So the splash population of the next render is the update of the
  population so far, followed by the particles created during the stream update. Particles
  queued before the frame belong to the population so far.
\<close>

record LiquidSystemState =
  streams :: "LiquidStream list"
  splashParticles :: "LiquidParticle list"
  env :: Env

definition splash_population :: "LiquidSystemState \<Rightarrow> LiquidParticle list" where
  "splash_population st = splashParticles st @ queuedSplash (env st)"

definition useFrame ::
  "bool \<Rightarrow> Vector3 \<Rightarrow> real \<Rightarrow> real \<Rightarrow> LiquidSystemState \<Rightarrow> LiquidSystemState" where
  "useFrame enabled gravity maxParticles delta st =
     (if \<not> enabled then st
      else
        (let (ss, e) = updateStreams gravity maxParticles delta (streams st)
                         ((env st)\<lparr>queuedSplash := []\<rparr>)
         in st\<lparr>streams := ss,
                splashParticles :=
                  updateSplashParticles gravity delta (splash_population st) @ queuedSplash e,
                env := e\<lparr>queuedSplash := []\<rparr>\<rparr>))"

subsection \<open>Retirement, as the specification words it\<close>

definition advanced :: "Vector3 \<Rightarrow> real \<Rightarrow> LiquidParticle \<Rightarrow> LiquidParticle" where
  "advanced gravity delta p =
     p\<lparr>p_position := add (p_position p)
                        (multiplyScalar (add (p_velocity p) (multiplyScalar gravity delta)) delta),
       p_velocity := add (p_velocity p) (multiplyScalar gravity delta),
       p_age := p_age p + delta\<rparr>"

definition retired_by_age :: "real \<Rightarrow> LiquidParticle \<Rightarrow> bool" where
  "retired_by_age delta p \<longleftrightarrow> p_age p + delta > p_lifetime p"

definition captured :: "Vector3 \<Rightarrow> real \<Rightarrow> LiquidStream \<Rightarrow> LiquidParticle \<Rightarrow> bool" where
  "captured gravity delta stream p \<longleftrightarrow>
     distanceTo (p_position (advanced gravity delta p)) (targetPosition stream) < 0.1"

section \<open>Container volume (components/lab)\<close>

text \<open>
  The state of a vessel component (Beaker, ChemicalBottle, TestTube, Bottle and Flask carry the
  same handler); \<^verbatim>\<open>maxVolume\<close> is a property of the component, not state.
\<close>

record Container =
  currentVolume :: real
  isPouring :: bool

definition handlePourEnd :: "real \<Rightarrow> Container \<Rightarrow> Container" where
  "handlePourEnd pouredVolume st =
     (let st = st\<lparr>isPouring := False\<rparr>;
          newVolume = max 0 (currentVolume st - pouredVolume)
      in st\<lparr>currentVolume := newVolume\<rparr>)"

definition clamp :: "real \<Rightarrow> real \<Rightarrow> real \<Rightarrow> real" where
  "clamp v lo hi = (if v < lo then lo else if v > hi then hi else v)"

section \<open>Auxiliary notions and sample inputs\<close>

text \<open>Every key of the registry is the id of the handle stored under it.\<close>

definition keys_consistent :: "DragDropState \<Rightarrow> bool" where
  "keys_consistent st \<longleftrightarrow> (\<forall>(k, v) \<in> set (registeredObjects st). drag_id v = k)"

text \<open>
  The velocity and the position a splash particle has after gravity, damping and the move,
  before the ground test.
\<close>

definition splash_velocity :: "Vector3 \<Rightarrow> real \<Rightarrow> LiquidParticle \<Rightarrow> Vector3" where
  "splash_velocity gravity delta p =
     multiplyScalar (add (p_velocity p) (multiplyScalar gravity (delta * 1.5))) 0.98"

definition splash_position :: "Vector3 \<Rightarrow> real \<Rightarrow> LiquidParticle \<Rightarrow> Vector3" where
  "splash_position gravity delta p =
     add (p_position p) (multiplyScalar (splash_velocity gravity delta p) delta)"

text \<open>
  A splash particle after one update, as the specification words it: gravity, damping and the
  move, then the clamp to the ground with the y-velocity zeroed and the velocity halved, and
  the age increased.
\<close>

definition splash_advanced :: "Vector3 \<Rightarrow> real \<Rightarrow> LiquidParticle \<Rightarrow> LiquidParticle" where
  "splash_advanced gravity delta p =
     (if vec_y (splash_position gravity delta p) < 0
      then p\<lparr>p_position := (splash_position gravity delta p)\<lparr>vec_y := 0\<rparr>,
             p_velocity := multiplyScalar ((splash_velocity gravity delta p)\<lparr>vec_y := 0\<rparr>) 0.5,
             p_age := p_age p + delta\<rparr>
      else p\<lparr>p_position := splash_position gravity delta p,
             p_velocity := splash_velocity gravity delta p,
             p_age := p_age p + delta\<rparr>)"

text \<open>
  Within one frame: the environment the update of stream \<open>i\<close> starts from, the particles that
  stream spawns, and the splash particles the stream update creates.
\<close>

definition env_before ::
  "Vector3 \<Rightarrow> real \<Rightarrow> real \<Rightarrow> LiquidSystemState \<Rightarrow> nat \<Rightarrow> Env" where
  "env_before gravity maxParticles delta st i =
     snd (updateStreams gravity maxParticles delta (take i (streams st))
            ((env st)\<lparr>queuedSplash := []\<rparr>))"

definition spawned ::
  "Vector3 \<Rightarrow> real \<Rightarrow> real \<Rightarrow> LiquidSystemState \<Rightarrow> nat \<Rightarrow> LiquidParticle list" where
  "spawned gravity maxParticles delta st i =
     drop (length (particles (streams st ! i)))
       (fst (addNewParticles gravity maxParticles delta (streams st ! i)
               (env_before gravity maxParticles delta st i)))"

definition created ::
  "Vector3 \<Rightarrow> real \<Rightarrow> real \<Rightarrow> LiquidSystemState \<Rightarrow> LiquidParticle list" where
  "created gravity maxParticles delta st =
     queuedSplash (snd (updateStreams gravity maxParticles delta (streams st)
                          ((env st)\<lparr>queuedSplash := []\<rparr>)))"

definition handle_a :: DragObject where
  "handle_a = \<lparr>drag_id = ''beaker-1'', object = 1, dtype = equipment,
     initialPosition = zero_Vector3, isDraggable = True, constraints = None\<rparr>"

definition handle_b :: DragObject where
  "handle_b = \<lparr>drag_id = ''flask-1'', object = 2, dtype = equipment,
     initialPosition = zero_Vector3, isDraggable = True, constraints = None\<rparr>"

definition initial_state :: DragDropState where
  "initial_state = \<lparr>draggedObject = None, hoveredObject = None, registeredObjects = [],
     isDragging = False, position = (\<lambda>_. zero_Vector3), children = (\<lambda>_. []),
     cursor = ''default''\<rparr>"

definition only_minY :: Constraints where
  "only_minY = \<lparr>minY = Some 0.5, maxY = None, minX = None, maxX = None,
     minZ = None, maxZ = None\<rparr>"

text \<open>
  The wrapper component puts a default \<^verbatim>\<open>minY\<close> of 0.5 under the constraints it is given; a
  \<^verbatim>\<open>maxY\<close> of 0.3 from its caller then lies below it.
\<close>

definition crossed_Y :: Constraints where
  "crossed_Y = \<lparr>minY = Some 0.5, maxY = Some 0.3, minX = None, maxX = None,
     minZ = None, maxZ = None\<rparr>"

definition dragging_state :: "Constraints \<Rightarrow> Vector3 \<Rightarrow> DragDropState" where
  "dragging_state c p =
     \<lparr>draggedObject = Some (handle_a\<lparr>constraints := Some c\<rparr>), hoveredObject = None,
      registeredObjects = [(''beaker-1'', handle_a\<lparr>constraints := Some c\<rparr>)],
      isDragging = True, position = (\<lambda>_. zero_Vector3)(1 := p), children = (\<lambda>_. []),
      cursor = ''grabbing''\<rparr>"

definition earth_gravity :: Vector3 where
  "earth_gravity = \<lparr>vec_x = 0, vec_y = -9.82, vec_z = 0\<rparr>"

definition env0 :: Env where
  "env0 = \<lparr>randoms = (\<lambda>_. 0.5), drawn = 0, particleIdCounter = 3, queuedSplash = []\<rparr>"

definition droplet :: "string \<Rightarrow> Vector3 \<Rightarrow> Vector3 \<Rightarrow> real \<Rightarrow> real \<Rightarrow> LiquidParticle" where
  "droplet ident pos vel lifetime age =
     \<lparr>p_id = ident, p_position = pos, p_velocity = vel, p_color = ''#4ade80'', p_size = 0.02,
      p_lifetime = lifetime, p_age = age, p_isPouring = True\<rparr>"

definition stopped_stream :: "LiquidParticle list \<Rightarrow> LiquidStream" where
  "stopped_stream ps =
     \<lparr>s_id = ''stream-0'', sourcePosition = \<lparr>vec_x = 0, vec_y = 1.2, vec_z = 0\<rparr>,
      targetPosition = \<lparr>vec_x = 1, vec_y = 0.1, vec_z = 0\<rparr>, particles = ps,
      isActive = False, flowRate = 10, s_color = ''#4ade80''\<rparr>"

definition old_drop :: LiquidParticle where
  "old_drop = droplet ''particle-0'' \<lparr>vec_x = 0, vec_y = 2, vec_z = 0\<rparr> zero_Vector3 2 1.95"

definition near_drop :: LiquidParticle where
  "near_drop = droplet ''particle-1'' \<lparr>vec_x = 1, vec_y = 0.1982, vec_z = 0\<rparr> zero_Vector3 2 0.5"

definition young_drop :: LiquidParticle where
  "young_drop = droplet ''particle-2'' \<lparr>vec_x = 0, vec_y = 2, vec_z = 0\<rparr> zero_Vector3 2 0.5"

definition low_splash :: LiquidParticle where
  "low_splash = droplet ''particle-7'' \<lparr>vec_x = 0, vec_y = 0.01, vec_z = 0\<rparr>
     \<lparr>vec_x = 1, vec_y = -1, vec_z = 0\<rparr> 1 0"

text \<open>A stopped stream whose target lies below the ground, with one particle about to reach it.\<close>

definition sinking_drop :: LiquidParticle where
  "sinking_drop = droplet ''particle-5'' \<lparr>vec_x = 0, vec_y = -0.9018, vec_z = 0\<rparr>
     zero_Vector3 2 0.5"

definition sunk_stream :: LiquidStream where
  "sunk_stream =
     \<lparr>s_id = ''stream-1'', sourcePosition = \<lparr>vec_x = 0, vec_y = 1, vec_z = 0\<rparr>,
      targetPosition = \<lparr>vec_x = 0, vec_y = -1, vec_z = 0\<rparr>, particles = [sinking_drop],
      isActive = False, flowRate = 10, s_color = ''#4ade80''\<rparr>"

definition env_low :: Env where
  "env_low = \<lparr>randoms = (\<lambda>_. 0.1), drawn = 0, particleIdCounter = 6, queuedSplash = []\<rparr>"

section \<open>Properties of the reaction lookup\<close>

lemma toLowerCase_keywords:
  "toLowerCase ''acid-base'' = ''acid-base''"
  "toLowerCase ''precipitation'' = ''precipitation''"
  "toLowerCase ''combustion'' = ''combustion''"
  by (simp_all add: toLowerCase_def toLowerChar_def)

lemma toLowerCase_examples:
  "toLowerCase ''Acid-Base'' = ''acid-base''"
  "toLowerCase ''PRECIPITATION'' = ''precipitation''"
  "toLowerCase ''ComBustion'' = ''combustion''"
  "toLowerCase ''Redox'' = ''redox''"
  by (simp_all add: toLowerCase_def toLowerChar_def char_of_eq_iff)

lemma stored_get_property:
  "stored obj key = Some r \<Longrightarrow> get_property obj key = Some (ResultObject r)"
  by (auto simp: stored_def get_property_def split: if_splits)

lemma stored_set_property:
  "stored (set_property obj key v) k = (if k = key then Some v else stored obj k)"
  by (simp add: stored_def set_property_def)

lemma forEach_body_stored:
  "stored (forEach_body exper obj) k =
     (if k = exp_id exper then Some (documented_result (exp_category exper)) else stored obj k)"
  by (simp add: forEach_body_def documented_result_def same_ignoring_case_def
      toLowerCase_keywords Let_def stored_set_property)

lemma fold_forEach_body:
  "stored (fold forEach_body exps obj) k =
     (case List.find (\<lambda>x. exp_id x = k) (rev exps) of
        None \<Rightarrow> stored obj k
      | Some e \<Rightarrow> Some (documented_result (exp_category e)))"
proof (induction exps rule: rev_induct)
  case Nil
  show ?case by simp
next
  case (snoc x xs)
  show ?case
  proof (cases "exp_id x = k")
    case True
    then show ?thesis by (simp add: forEach_body_stored)
  next
    case False
    then show ?thesis using snoc.IH by (simp add: forEach_body_stored)
  qed
qed

lemma find_last_distinct:
  assumes "distinct (map exp_id exps)" and "e \<in> set exps"
  shows "List.find (\<lambda>x. exp_id x = exp_id e) (rev exps) = Some e"
proof -
  from assms(2) have "\<exists>x \<in> set (rev exps). exp_id x = exp_id e" by auto
  then obtain y where y: "List.find (\<lambda>x. exp_id x = exp_id e) (rev exps) = Some y"
    by (cases "List.find (\<lambda>x. exp_id x = exp_id e) (rev exps)") (auto simp: find_None_iff)
  then obtain i where i: "i < length (rev exps)" "exp_id (rev exps ! i) = exp_id e"
      "y = rev exps ! i"
    unfolding find_Some_iff by blast
  from i(1) have "rev exps ! i \<in> set (rev exps)" by (rule nth_mem)
  with i have "y \<in> set exps" and "exp_id y = exp_id e" by simp_all
  with assms have "y = e"
    by (meson distinct_map inj_onD)
  with y show ?thesis by simp
qed

lemma generateReactionLogic_stored:
  "stored (generateReactionLogic exps) k =
     map_option (\<lambda>e. documented_result (exp_category e))
       (List.find (\<lambda>x. exp_id x = k) (rev exps))"
proof -
  have "stored empty_object k = None"
    by (simp add: stored_def empty_object_def)
  then show ?thesis
    by (simp add: generateReactionLogic_def fold_forEach_body split: option.split)
qed

text \<open>
  With pairwise different ids, reading the id of any experiment of the list gives the
  documented result of its own category.
\<close>

lemma generateReactionLogic_distinct_ids:
  assumes "distinct (map exp_id exps)" and "e \<in> set exps"
  shows "get_property (generateReactionLogic exps) (exp_id e)
         = Some (ResultObject (documented_result (exp_category e)))"
  by (rule stored_get_property)
     (simp add: generateReactionLogic_stored find_last_distinct [OF assms])

text \<open>
  C1 (as amended). For every list of experiments and every id that an experiment of the list
  carries, reading the id from the object \<^const>\<open>generateReactionLogic\<close> returns gives the
  documented result (case-insensitive match on acid-base, precipitation, combustion, generic
  otherwise) of the category of the last experiment in the list that carries the id.
\<close>

theorem generateReactionLogic_last_wins:
  assumes "List.find (\<lambda>x. exp_id x = k) (rev exps) = Some e"
  shows "get_property (generateReactionLogic exps) k
         = Some (ResultObject (documented_result (exp_category e)))"
  by (rule stored_get_property) (simp add: generateReactionLogic_stored assms)

theorem generateReactionLogic_last_wins_witness:
  "List.find (\<lambda>x. exp_id x = ''e1'')
     (rev [\<lparr>exp_id = ''e1'', exp_category = ''Acid-Base''\<rparr>,
           \<lparr>exp_id = ''e2'', exp_category = ''Redox''\<rparr>])
     = Some \<lparr>exp_id = ''e1'', exp_category = ''Acid-Base''\<rparr>
   \<and> get_property (generateReactionLogic
        [\<lparr>exp_id = ''e1'', exp_category = ''Acid-Base''\<rparr>,
         \<lparr>exp_id = ''e2'', exp_category = ''Redox''\<rparr>]) ''e1''
     = Some (ResultObject \<lparr>outcomeText = ''Neutralization reaction occurred'',
           effects = [\<lparr>effect_type = ''color-change'', intensity = 0.8\<rparr>]\<rparr>)"
  using generateReactionLogic_last_wins
    [of "''e1''" "[\<lparr>exp_id = ''e1'', exp_category = ''Acid-Base''\<rparr>,
          \<lparr>exp_id = ''e2'', exp_category = ''Redox''\<rparr>]"
        "\<lparr>exp_id = ''e1'', exp_category = ''Acid-Base''\<rparr>"]
  by (simp add: documented_result_def same_ignoring_case_def toLowerCase_keywords
      toLowerCase_examples)

text \<open>
  The claim as first stated fails on a list in which two experiments share an id: the
  second assignment overwrites the first, and reading the first experiment's id gives the
  result of the second one's category.
\<close>

theorem generateReactionLogic_duplicate_id_counterexample:
  "get_property (generateReactionLogic
     [\<lparr>exp_id = ''e1'', exp_category = ''acid-base''\<rparr>,
      \<lparr>exp_id = ''e1'', exp_category = ''combustion''\<rparr>]) ''e1''
   = Some (ResultObject \<lparr>outcomeText = ''Combustion reaction occurred'',
           effects = [\<lparr>effect_type = ''heat-release'', intensity = 1.0\<rparr>]\<rparr>)
   \<and> get_property (generateReactionLogic
     [\<lparr>exp_id = ''e1'', exp_category = ''acid-base''\<rparr>,
      \<lparr>exp_id = ''e1'', exp_category = ''combustion''\<rparr>]) ''e1''
   \<noteq> Some (ResultObject (documented_result ''acid-base''))"
  by (simp add: generateReactionLogic_def forEach_body_def toLowerCase_keywords
      documented_result_def same_ignoring_case_def set_property_def get_property_def
      empty_object_def)

text \<open>
  Where no inherited property is in the way (the object still has \<^verbatim>\<open>Object.prototype\<close> as its
  prototype and the id names none of its properties), \<^const>\<open>checkReactionTrigger\<close> returns
  the stored result exactly when two chemical ids are given and a result is stored, and
  \<^verbatim>\<open>null\<close> otherwise.
\<close>

lemma checkReactionTrigger_ordinary_id:
  assumes "prototype reactionLogic = None" and "experimentId \<noteq> ''__proto__''"
    and "experimentId \<notin> set Object_prototype_functions"
  shows "checkReactionTrigger chemicalIds reactionLogic experimentId =
     (if length chemicalIds \<ge> 2
      then map_option ResultObject (own_properties reactionLogic experimentId)
      else None)"
  using assms
  by (simp add: checkReactionTrigger_def get_property_def truthy_def inherited_def
      split: option.split)

text \<open>
  C2. With two chemical ids and the id \<^verbatim>\<open>constructor\<close>, for which the object stores no
  result, \<^const>\<open>checkReactionTrigger\<close> does not return \<^verbatim>\<open>null\<close>: the read finds the function
  the object inherits under that key, which is truthy, and returns it.
\<close>

theorem checkReactionTrigger_returns_inherited:
  "checkReactionTrigger [''HCl'', ''NaOH'']
     (generateReactionLogic [\<lparr>exp_id = ''e1'', exp_category = ''acid-base''\<rparr>]) ''constructor''
     = Some (BuiltinFunction ''constructor'')
   \<and> stored (generateReactionLogic [\<lparr>exp_id = ''e1'', exp_category = ''acid-base''\<rparr>])
       ''constructor'' = None"
  by (simp add: checkReactionTrigger_def generateReactionLogic_def forEach_body_def
      toLowerCase_keywords set_property_def get_property_def empty_object_def truthy_def
      inherited_def Object_prototype_functions_def stored_def)

section \<open>Properties of the drag-drop registry\<close>

lemma set_update_subset: "set (AList.update k v al) \<subseteq> insert (k, v) (set al)"
  by (induction al) auto

lemma set_delete_subset: "set (AList.delete k al) \<subseteq> set al"
  by (auto simp: AList.delete_eq)

lemma keys_consistent_register: "keys_consistent st \<Longrightarrow> keys_consistent (registerObject obj st)"
  unfolding keys_consistent_def registerObject_def
  using set_update_subset [of "drag_id obj" obj "registeredObjects st"] by auto

lemma keys_consistent_unregister:
  "keys_consistent st \<Longrightarrow> keys_consistent (unregisterObject ident st)"
  unfolding keys_consistent_def unregisterObject_def
  using set_delete_subset [of ident "registeredObjects st"] by auto

lemma keys_consistent_op: "keys_consistent st \<Longrightarrow> keys_consistent (apply_registry_op op st)"
  by (cases op) (simp_all add: keys_consistent_register keys_consistent_unregister)

lemma keys_consistent_fold:
  "keys_consistent st \<Longrightarrow> keys_consistent (fold apply_registry_op ops st)"
  by (induction ops arbitrary: st) (simp_all add: keys_consistent_op)

lemma absent_op:
  assumes "ident \<notin> fst ` set (registeredObjects st)" and "\<not> registers ident op"
  shows "ident \<notin> fst ` set (registeredObjects (apply_registry_op op st))"
proof (cases op)
  case (Register obj)
  with assms show ?thesis
    by (simp add: registerObject_def AList.dom_update)
next
  case (Unregister k)
  with assms(1) show ?thesis
    using AList.dom_delete_subset [of k "registeredObjects st"]
    by (auto simp: unregisterObject_def)
qed

lemma absent_fold:
  assumes "ident \<notin> fst ` set (registeredObjects st)"
    and "\<forall>op \<in> set ops. \<not> registers ident op"
  shows "ident \<notin> fst ` set (registeredObjects (fold apply_registry_op ops st))"
  using assms
proof (induction ops arbitrary: st)
  case Nil
  then show ?case by simp
next
  case (Cons op ops)
  from Cons.prems have "ident \<notin> fst ` set (registeredObjects (apply_registry_op op st))"
    by (simp add: absent_op)
  with Cons show ?case by simp
qed

lemma resolvePointer_registered:
  assumes "resolvePointer cast st = Some h"
  shows "h \<in> snd ` set (registeredObjects st)"
proof -
  let ?hit = "hd (getIntersection cast st)"
  from assms have "List.find (\<lambda>obj. object obj = ?hit \<or> ?hit \<in> set (children st (object obj)))
      (map snd (registeredObjects st)) = Some h"
    by (simp add: resolvePointer_def Let_def split: if_splits)
  then obtain i where "i < length (map snd (registeredObjects st))"
    and "h = map snd (registeredObjects st) ! i"
    unfolding find_Some_iff by blast
  then have "h \<in> set (map snd (registeredObjects st))"
    using nth_mem by blast
  then show ?thesis by simp
qed

lemma resolvePointer_absent:
  assumes "keys_consistent st" and "ident \<notin> fst ` set (registeredObjects st)"
    and "resolvePointer cast st = Some h"
  shows "drag_id h \<noteq> ident"
proof -
  from resolvePointer_registered [OF assms(3)]
  obtain k where "(k, h) \<in> set (registeredObjects st)" by auto
  with assms(1) have "drag_id h = k" and "k \<in> fst ` set (registeredObjects st)"
    by (auto simp: keys_consistent_def intro: rev_image_eqI)
  with assms(2) show ?thesis by auto
qed

text \<open>
  C9. From the empty registry and after any earlier operations, once a handle has been
  registered and its id unregistered, the pointer never resolves to a handle of that id,
  whatever the raycaster reports and whatever operations follow, as long as none of them
  registers the id again. Unregistering an id that is not a key of the registry leaves the
  state as it is; the operation has no failing branch.
\<close>

theorem unregistered_never_resolved:
  "(registeredObjects st0 = [] \<and> (\<forall>op \<in> set later. \<not> registers (drag_id h) op)
      \<longrightarrow> (\<forall>h'. resolvePointer cast
                  (fold apply_registry_op later
                    (unregisterObject (drag_id h)
                      (registerObject h (fold apply_registry_op earlier st0)))) = Some h'
                \<longrightarrow> drag_id h' \<noteq> drag_id h))
   \<and> (ident \<notin> fst ` set (registeredObjects st) \<longrightarrow> unregisterObject ident st = st)"
proof (intro conjI impI allI)
  assume a: "registeredObjects st0 = [] \<and> (\<forall>op \<in> set later. \<not> registers (drag_id h) op)"
  let ?s1 = "unregisterObject (drag_id h) (registerObject h (fold apply_registry_op earlier st0))"
  let ?s2 = "fold apply_registry_op later ?s1"
  fix h' assume r: "resolvePointer cast ?s2 = Some h'"
  from a have "keys_consistent st0" by (simp add: keys_consistent_def)
  then have k: "keys_consistent ?s2"
    by (intro keys_consistent_fold keys_consistent_unregister keys_consistent_register)
  have "drag_id h \<notin> fst ` set (registeredObjects ?s1)"
    by (simp add: unregisterObject_def AList.delete_notin_dom)
  with a have "drag_id h \<notin> fst ` set (registeredObjects ?s2)"
    by (intro absent_fold) simp_all
  from resolvePointer_absent [OF k this r] show "drag_id h' \<noteq> drag_id h" .
next
  assume "ident \<notin> fst ` set (registeredObjects st)"
  then show "unregisterObject ident st = st"
    by (simp add: unregisterObject_def)
qed

theorem unregistered_never_resolved_witness:
  "registeredObjects initial_state = []
   \<and> \<not> registers (drag_id handle_a) (Register handle_b)
   \<and> resolvePointer (\<lambda>objs. objs)
        (fold apply_registry_op [Register handle_b]
          (unregisterObject (drag_id handle_a)
            (registerObject handle_a (fold apply_registry_op [Register handle_b] initial_state))))
       = Some handle_b
   \<and> drag_id handle_b \<noteq> drag_id handle_a
   \<and> ''burner-9'' \<notin> fst ` set (registeredObjects (registerObject handle_a initial_state))
   \<and> unregisterObject ''burner-9'' (registerObject handle_a initial_state)
       = registerObject handle_a initial_state"
  using unregistered_never_resolved [of initial_state "[Register handle_b]" handle_a
      "\<lambda>objs. objs" "[Register handle_b]" "''burner-9''" "registerObject handle_a initial_state"]
  by (simp add: initial_state_def handle_a_def handle_b_def registerObject_def
      unregisterObject_def resolvePointer_def getIntersection_def)

lemma clamp_within:
  "proper_interval lo hi \<Longrightarrow> within_bounds lo hi (clampMax hi (clampMin lo v))"
  by (auto simp: proper_interval_def within_bounds_def clampMax_def clampMin_def
      split: option.splits)

lemma clamp_unbounded: "clampMax None (clampMin None v) = v"
  by (simp add: clampMax_def clampMin_def)

lemma endDrag_position:
  assumes "draggedObject st = Some d" and "constraints d = Some c"
  shows "position (endDrag st) (object d) =
     \<lparr>vec_x = clampMax (maxX c) (clampMin (minX c) (vec_x (position st (object d)))),
      vec_y = clampMax (maxY c) (clampMin (minY c) (vec_y (position st (object d)))),
      vec_z = clampMax (maxZ c) (clampMin (minZ c) (vec_z (position st (object d))))\<rparr>"
  using assms by (simp add: endDrag_def Let_def)

lemma endDrag_clears: "draggedObject (endDrag st) = None \<and> isDragging (endDrag st) = False"
  by (simp add: endDrag_def Let_def split: option.splits)

text \<open>
  C3 (as amended). When a handle with constraints is dragged and, on every axis that has both
  a minimum and a maximum, the minimum is not above the maximum, \<^const>\<open>endDrag\<close> leaves each
  coordinate of the handle's object at or above its configured minimum and at or below its
  configured maximum, leaves the coordinate of an axis without bounds as it was, and clears
  the dragged reference and the dragging flag.
\<close>

theorem endDrag_within_bounds:
  assumes "draggedObject st = Some d" and "constraints d = Some c"
    and "proper_interval (minX c) (maxX c)"
    and "proper_interval (minY c) (maxY c)"
    and "proper_interval (minZ c) (maxZ c)"
  shows "within_bounds (minX c) (maxX c) (vec_x (position (endDrag st) (object d)))
       \<and> within_bounds (minY c) (maxY c) (vec_y (position (endDrag st) (object d)))
       \<and> within_bounds (minZ c) (maxZ c) (vec_z (position (endDrag st) (object d)))
       \<and> (minX c = None \<and> maxX c = None
            \<longrightarrow> vec_x (position (endDrag st) (object d)) = vec_x (position st (object d)))
       \<and> (minY c = None \<and> maxY c = None
            \<longrightarrow> vec_y (position (endDrag st) (object d)) = vec_y (position st (object d)))
       \<and> (minZ c = None \<and> maxZ c = None
            \<longrightarrow> vec_z (position (endDrag st) (object d)) = vec_z (position st (object d)))
       \<and> draggedObject (endDrag st) = None \<and> isDragging (endDrag st) = False"
  using assms(3-5)
  by (simp add: endDrag_position [OF assms(1,2)] endDrag_clears clamp_within clamp_unbounded)

theorem endDrag_within_bounds_witness:
  "draggedObject (dragging_state only_minY \<lparr>vec_x = 2, vec_y = -3, vec_z = 1\<rparr>)
     = Some (handle_a\<lparr>constraints := Some only_minY\<rparr>)
   \<and> proper_interval (minX only_minY) (maxX only_minY)
   \<and> proper_interval (minY only_minY) (maxY only_minY)
   \<and> proper_interval (minZ only_minY) (maxZ only_minY)
   \<and> position (endDrag (dragging_state only_minY \<lparr>vec_x = 2, vec_y = -3, vec_z = 1\<rparr>)) 1
       = \<lparr>vec_x = 2, vec_y = 0.5, vec_z = 1\<rparr>
   \<and> draggedObject (endDrag (dragging_state only_minY \<lparr>vec_x = 2, vec_y = -3, vec_z = 1\<rparr>)) = None
   \<and> \<not> isDragging (endDrag (dragging_state only_minY \<lparr>vec_x = 2, vec_y = -3, vec_z = 1\<rparr>))"
  using endDrag_within_bounds [of "dragging_state only_minY \<lparr>vec_x = 2, vec_y = -3, vec_z = 1\<rparr>"
      "handle_a\<lparr>constraints := Some only_minY\<rparr>" only_minY]
  by (simp add: dragging_state_def only_minY_def handle_a_def proper_interval_def
      within_bounds_def endDrag_def clampMin_def clampMax_def Let_def)

text \<open>
  The claim as first stated fails when a minimum lies above the maximum of its axis: the
  \<^verbatim>\<open>Math.min\<close> against the maximum runs last, and the coordinate ends below the minimum.
\<close>

theorem endDrag_crossed_bounds_counterexample:
  "minY crossed_Y = Some 0.5
   \<and> vec_y (position (endDrag (dragging_state crossed_Y \<lparr>vec_x = 0, vec_y = 1, vec_z = 0\<rparr>)) 1)
       = 0.3
   \<and> \<not> within_bounds (minY crossed_Y) (maxY crossed_Y)
        (vec_y (position (endDrag (dragging_state crossed_Y \<lparr>vec_x = 0, vec_y = 1, vec_z = 0\<rparr>)) 1))"
  by (simp add: dragging_state_def crossed_Y_def handle_a_def within_bounds_def endDrag_def
      clampMin_def clampMax_def Let_def)

text \<open>
  During a drag the handler throws before it reaches the intersection and the guard; no
  pointer-move changes a position.
\<close>

lemma handleMouseMove_drag_throws:
  assumes "enabled" and "isDragging st" and "draggedObject st = Some d"
  shows "handleMouseMove enabled cast dragPlaneNormal intersectPlane st
         = Inl (TypeError ''setFromNormalAndCoplanarPoint is not a function'')"
  using assms by (simp add: handleMouseMove_def setFromNormalAndCoplanarPoint_def)

lemma handleMouseMove_position:
  assumes "handleMouseMove enabled cast dragPlaneNormal intersectPlane st = Inr st'"
  shows "position st' = position st"
  using assms
  by (auto simp: handleMouseMove_def setFromNormalAndCoplanarPoint_def Let_def
      split: if_splits bool.splits option.splits)

text \<open>
  C4. On a pointer-move while a handle is dragged, \<^const>\<open>handleMouseMove\<close> raises: whatever
  the raycaster, the camera and the plane intersection are, the handler ends in the
  \<^verbatim>\<open>TypeError\<close> of line 154 and returns no state.
\<close>

theorem handleMouseMove_raises_TypeError:
  "handleMouseMove True cast dragPlaneNormal intersectPlane
      (dragging_state only_minY \<lparr>vec_x = 2, vec_y = 1, vec_z = 3\<rparr>)
     = Inl (TypeError ''setFromNormalAndCoplanarPoint is not a function'')"
  by (simp add: handleMouseMove_def setFromNormalAndCoplanarPoint_def dragging_state_def)

section \<open>Properties of the container volume\<close>

lemma handlePourEnd_volume:
  "currentVolume (handlePourEnd pouredVolume st) = max 0 (currentVolume st - pouredVolume)"
  by (simp add: handlePourEnd_def Let_def)

lemma handlePourEnd_range:
  assumes "0 \<le> currentVolume st" and "currentVolume st \<le> maxVolume" and "0 \<le> pouredVolume"
  shows "0 \<le> currentVolume (handlePourEnd pouredVolume st)
       \<and> currentVolume (handlePourEnd pouredVolume st) \<le> maxVolume"
  using assms by (simp add: handlePourEnd_volume)

lemma fold_handlePourEnd_range:
  assumes "0 \<le> currentVolume st" and "currentVolume st \<le> maxVolume"
    and "\<forall>p \<in> set pours. 0 \<le> p"
  shows "0 \<le> currentVolume (fold handlePourEnd pours st)
       \<and> currentVolume (fold handlePourEnd pours st) \<le> maxVolume"
  using assms
proof (induction pours arbitrary: st)
  case Nil
  then show ?case by simp
next
  case (Cons p pours)
  from Cons.prems have "0 \<le> currentVolume (handlePourEnd p st)
      \<and> currentVolume (handlePourEnd p st) \<le> maxVolume"
    by (intro handlePourEnd_range) simp_all
  with Cons.IH [of "handlePourEnd p st"] Cons.prems(3) show ?case by simp
qed

text \<open>
  C5. For a volume state with \<open>0 \<le> current \<le> max\<close>: a pour-end event with a poured amount
  that is not negative sets the current volume to \<open>clamp (current - poured) 0 max\<close>, and
  after any sequence of such events the current volume is neither negative nor above
  \<open>max\<close>.
\<close>

theorem handlePourEnd_clamp:
  assumes "0 \<le> currentVolume st" and "currentVolume st \<le> maxVolume"
  shows "(0 \<le> pouredVolume \<longrightarrow>
            currentVolume (handlePourEnd pouredVolume st)
              = clamp (currentVolume st - pouredVolume) 0 maxVolume)
       \<and> ((\<forall>p \<in> set pours. 0 \<le> p) \<longrightarrow>
            0 \<le> currentVolume (fold handlePourEnd pours st)
            \<and> currentVolume (fold handlePourEnd pours st) \<le> maxVolume)"
proof (intro conjI impI)
  assume "0 \<le> pouredVolume"
  with assms show "currentVolume (handlePourEnd pouredVolume st)
      = clamp (currentVolume st - pouredVolume) 0 maxVolume"
    by (simp add: handlePourEnd_volume clamp_def)
next
  assume "\<forall>p \<in> set pours. 0 \<le> p"
  with assms show "0 \<le> currentVolume (fold handlePourEnd pours st)"
    and "currentVolume (fold handlePourEnd pours st) \<le> maxVolume"
    using fold_handlePourEnd_range by blast+
qed

theorem handlePourEnd_clamp_witness:
  "currentVolume (handlePourEnd 2 \<lparr>currentVolume = 50, isPouring = True\<rparr>) = 48
   \<and> clamp (50 - 2) 0 250 = 48
   \<and> currentVolume (handlePourEnd 2 \<lparr>currentVolume = 1, isPouring = True\<rparr>) = 0
   \<and> (0 :: real) \<le> 2 \<and> (0 :: real) \<le> 60
   \<and> 0 \<le> currentVolume (fold handlePourEnd [2, 2, 60] \<lparr>currentVolume = 50, isPouring = True\<rparr>)
   \<and> currentVolume (fold handlePourEnd [2, 2, 60] \<lparr>currentVolume = 50, isPouring = True\<rparr>) \<le> 250"
  using handlePourEnd_clamp [of "\<lparr>currentVolume = 50, isPouring = True\<rparr>" 250 2 "[2, 2, 60]"]
    handlePourEnd_clamp [of "\<lparr>currentVolume = 1, isPouring = True\<rparr>" 250 2 "[]"]
  by (simp add: clamp_def)

section \<open>Properties of the liquid particle simulator\<close>

text \<open>
  C10. For a stream id that no stream of the list carries, both updates of \<^verbatim>\<open>stopPour\<close>, the
  marking pass and the delayed filter, return the list as it is; neither has a failing
  branch.
\<close>

theorem stopPour_unknown_id:
  assumes "streamId \<notin> s_id ` set prev"
  shows "stopPour streamId prev = prev \<and> stopPour_timeout streamId prev = prev"
proof
  from assms have "\<forall>stream \<in> set prev. s_id stream \<noteq> streamId" by auto
  then show "stopPour streamId prev = prev"
    unfolding stopPour_def by (simp add: map_idI)
  from assms have "\<forall>stream \<in> set prev. s_id stream \<noteq> streamId" by auto
  then show "stopPour_timeout streamId prev = prev"
    unfolding stopPour_timeout_def by simp
qed

theorem stopPour_unknown_id_witness:
  "''stream-9'' \<notin> s_id ` set [stopped_stream [young_drop]]
   \<and> stopPour ''stream-9'' [stopped_stream [young_drop]] = [stopped_stream [young_drop]]
   \<and> stopPour_timeout ''stream-9'' [stopped_stream [young_drop]] = [stopped_stream [young_drop]]"
  using stopPour_unknown_id [of "''stream-9''" "[stopped_stream [young_drop]]"]
  by (simp add: stopped_stream_def)

lemma updateParticle_result:
  "fst (updateParticle gravity delta stream p e) =
     (if retired_by_age delta p \<or> captured gravity delta stream p then None
      else Some (advanced gravity delta p))"
  by (simp add: updateParticle_def retired_by_age_def captured_def advanced_def Let_def
      split: prod.split)

lemma mapParticles_survivors:
  "List.map_filter (\<lambda>p. p) (fst (mapParticles gravity delta stream ps e)) =
     map (advanced gravity delta)
       (filter (\<lambda>p. \<not> (retired_by_age delta p \<or> captured gravity delta stream p)) ps)"
proof (induction ps arbitrary: e)
  case Nil
  show ?case by simp
next
  case (Cons p ps)
  obtain r e1 where u: "updateParticle gravity delta stream p e = (r, e1)"
    by (cases "updateParticle gravity delta stream p e")
  obtain rs e2 where m: "mapParticles gravity delta stream ps e1 = (rs, e2)"
    by (cases "mapParticles gravity delta stream ps e1")
  from u have r: "r = (if retired_by_age delta p \<or> captured gravity delta stream p then None
      else Some (advanced gravity delta p))"
    using updateParticle_result [of gravity delta stream p e] by simp
  from Cons.IH [of e1] m
  have "List.map_filter (\<lambda>p. p) rs = map (advanced gravity delta)
       (filter (\<lambda>p. \<not> (retired_by_age delta p \<or> captured gravity delta stream p)) ps)"
    by simp
  with u m r show ?case by simp
qed

lemma addNewParticles_skipped:
  "\<not> isActive stream \<Longrightarrow> addNewParticles gravity maxParticles delta stream e = (particles stream, e)"
  by (simp add: addNewParticles_def)

lemma updateStream_particles:
  "particles (fst (updateStream gravity maxParticles delta stream e)) =
     map (advanced gravity delta)
       (filter (\<lambda>p. \<not> (retired_by_age delta p \<or> captured gravity delta stream p))
         (fst (addNewParticles gravity maxParticles delta stream e)))"
proof (cases "\<not> isActive stream \<and> length (particles stream) = 0")
  case True
  then show ?thesis by (simp add: updateStream_def addNewParticles_skipped)
next
  case False
  obtain ps e1 where a: "addNewParticles gravity maxParticles delta stream e = (ps, e1)"
    by (cases "addNewParticles gravity maxParticles delta stream e")
  obtain rs e2 where m: "mapParticles gravity delta stream ps e1 = (rs, e2)"
    by (cases "mapParticles gravity delta stream ps e1")
  from mapParticles_survivors [of gravity delta stream ps e1] m
  have "List.map_filter (\<lambda>p. p) rs = map (advanced gravity delta)
       (filter (\<lambda>p. \<not> (retired_by_age delta p \<or> captured gravity delta stream p)) ps)"
    by simp
  with False a m show ?thesis by (auto simp: updateStream_def)
qed

text \<open>The new particles of a stream are pushed behind the ones it has.\<close>

lemma pushNewParticles_prefix:
  "take (length ps) (fst (pushNewParticles gravity stream n ps e)) = ps"
proof (induction n arbitrary: ps e)
  case 0
  show ?case by simp
next
  case (Suc n)
  obtain progress e1 where r: "Math_random e = (progress, e1)"
    by (cases "Math_random e")
  obtain p e2 where c: "createStreamParticle gravity stream progress e1 = (p, e2)"
    by (cases "createStreamParticle gravity stream progress e1")
  from Suc.IH [of "ps @ [p]" e2]
  have "take (length ps) (take (length (ps @ [p]))
      (fst (pushNewParticles gravity stream n (ps @ [p]) e2))) = take (length ps) (ps @ [p])"
    by simp
  then have "take (length ps) (fst (pushNewParticles gravity stream n (ps @ [p]) e2)) = ps"
    by (simp add: min_def)
  with r c show ?case by simp
qed

lemma addNewParticles_prefix:
  "take (length (particles stream)) (fst (addNewParticles gravity maxParticles delta stream e))
     = particles stream"
  by (simp add: addNewParticles_def Let_def pushNewParticles_prefix)

lemma addNewParticles_spawned:
  "fst (addNewParticles gravity maxParticles delta stream e)
     = particles stream
       @ drop (length (particles stream))
           (fst (addNewParticles gravity maxParticles delta stream e))"
  using addNewParticles_prefix [of stream gravity maxParticles delta e]
    append_take_drop_id [of "length (particles stream)"
      "fst (addNewParticles gravity maxParticles delta stream e)"]
  by simp

text \<open>The streams are updated one after the other, each from the environment the ones before it left.\<close>

lemma updateStreams_nth:
  assumes "i < length ss"
  shows "fst (updateStreams gravity maxParticles delta ss e) ! i =
     fst (updateStream gravity maxParticles delta (ss ! i)
            (snd (updateStreams gravity maxParticles delta (take i ss) e)))"
  using assms
proof (induction ss arbitrary: i e)
  case Nil
  then show ?case by simp
next
  case (Cons s ss)
  obtain s' e1 where u: "updateStream gravity maxParticles delta s e = (s', e1)"
    by (cases "updateStream gravity maxParticles delta s e")
  show ?case
  proof (cases i)
    case 0
    with u show ?thesis by (simp add: case_prod_beta)
  next
    case (Suc j)
    with Cons.prems have "j < length ss" by simp
    from Cons.IH [OF this, of e1] u Suc show ?thesis by (simp add: case_prod_beta)
  qed
qed

lemma useFrame_streams:
  "enabled \<Longrightarrow> streams (useFrame enabled gravity maxParticles delta st) =
     fst (updateStreams gravity maxParticles delta (streams st) ((env st)\<lparr>queuedSplash := []\<rparr>))"
  by (simp add: useFrame_def case_prod_beta)

lemma useFrame_stream_particles:
  assumes "enabled" and "i < length (streams st)"
  shows "particles (streams (useFrame enabled gravity maxParticles delta st) ! i) =
     map (advanced gravity delta)
       (filter (\<lambda>p. \<not> (retired_by_age delta p \<or> captured gravity delta (streams st ! i) p))
         (particles (streams st ! i) @ spawned gravity maxParticles delta st i))"
proof -
  let ?e = "env_before gravity maxParticles delta st i"
  have "streams (useFrame enabled gravity maxParticles delta st) ! i
      = fst (updateStream gravity maxParticles delta (streams st ! i) ?e)"
    using assms by (simp add: useFrame_streams updateStreams_nth env_before_def)
  moreover have "fst (addNewParticles gravity maxParticles delta (streams st ! i) ?e)
      = particles (streams st ! i) @ spawned gravity maxParticles delta st i"
    unfolding spawned_def by (rule addNewParticles_spawned)
  ultimately show ?thesis
    using updateStream_particles [of gravity maxParticles delta "streams st ! i" ?e] by simp
qed

text \<open>The update of the splash population, particle by particle and as a whole.\<close>

lemma updateSplashParticle_result:
  "updateSplashParticle gravity delta p =
     (if retired_by_age delta p then None else Some (splash_advanced gravity delta p))"
  by (simp add: updateSplashParticle_def retired_by_age_def splash_advanced_def
      splash_position_def splash_velocity_def Let_def)

lemma updateSplashParticles_result:
  "updateSplashParticles gravity delta ps =
     map (splash_advanced gravity delta) (filter (\<lambda>p. \<not> retired_by_age delta p) ps)"
  by (induction ps) (simp_all add: updateSplashParticles_def updateSplashParticle_result)

lemma useFrame_splashParticles:
  "enabled \<Longrightarrow> splashParticles (useFrame enabled gravity maxParticles delta st) =
     map (splash_advanced gravity delta)
       (filter (\<lambda>p. \<not> retired_by_age delta p) (splash_population st))
     @ created gravity maxParticles delta st"
  by (simp add: useFrame_def case_prod_beta updateSplashParticles_result created_def)

lemma splash_advanced_ground: "0 \<le> vec_y (p_position (splash_advanced gravity delta p))"
  by (simp add: splash_advanced_def)

text \<open>
  C6. In a simulation step of duration \<open>delta\<close>, every stream keeps, of the particles it had
  and the ones it spawned, exactly those whose updated age does not exceed their lifetime and
  whose updated position is not less than 0.1 from the stream's target, each survivor
  advanced and its age increased by \<open>delta\<close>; the splash population keeps exactly its particles
  whose updated age does not exceed their lifetime, each with its age increased by \<open>delta\<close>,
  followed by the particles created during the step.
\<close>

theorem particle_retirement:
  assumes "enabled"
  shows "(\<forall>i < length (streams st).
            particles (streams (useFrame enabled gravity maxParticles delta st) ! i) =
              map (advanced gravity delta)
                (filter (\<lambda>p. \<not> (retired_by_age delta p
                                \<or> captured gravity delta (streams st ! i) p))
                  (particles (streams st ! i) @ spawned gravity maxParticles delta st i)))
       \<and> splashParticles (useFrame enabled gravity maxParticles delta st) =
           map (splash_advanced gravity delta)
             (filter (\<lambda>p. \<not> retired_by_age delta p) (splash_population st))
           @ created gravity maxParticles delta st
       \<and> p_age (advanced gravity delta p) = p_age p + delta
       \<and> p_age (splash_advanced gravity delta p) = p_age p + delta"
  using assms
  by (simp add: useFrame_stream_particles useFrame_splashParticles advanced_def
      splash_advanced_def)

lemma distanceTo_less_tenth:
  "distanceTo a b < 0.1 \<longleftrightarrow> distanceToSquared a b < 0.01"
proof -
  have "sqrt (distanceToSquared a b) < 0.1 \<longleftrightarrow> sqrt (distanceToSquared a b) < sqrt 0.01"
    by (simp add: real_sqrt_divide)
  then show ?thesis by (simp add: distanceTo_def)
qed

lemma captured_iff:
  "captured gravity delta stream p \<longleftrightarrow>
     distanceToSquared (p_position (advanced gravity delta p)) (targetPosition stream) < 0.01"
  unfolding captured_def by (rule distanceTo_less_tenth)

theorem particle_retirement_witness:
  "map p_id (particles (streams (useFrame True earth_gravity 500 0.1
       \<lparr>streams = [stopped_stream [old_drop, near_drop, young_drop]],
        splashParticles = [], env = env0\<rparr>) ! 0)) = [''particle-2'']
   \<and> map p_age (particles (streams (useFrame True earth_gravity 500 0.1
       \<lparr>streams = [stopped_stream [old_drop, near_drop, young_drop]],
        splashParticles = [], env = env0\<rparr>) ! 0)) = [0.6]
   \<and> map p_id (splashParticles (useFrame True earth_gravity 500 0.1
       \<lparr>streams = [], splashParticles = [old_drop, young_drop], env = env0\<rparr>))
       = [''particle-2'']
   \<and> map p_age (splashParticles (useFrame True earth_gravity 500 0.1
       \<lparr>streams = [], splashParticles = [old_drop, young_drop], env = env0\<rparr>)) = [0.6]"
  using particle_retirement [of True
      "\<lparr>streams = [stopped_stream [old_drop, near_drop, young_drop]],
        splashParticles = [], env = env0\<rparr>" earth_gravity 500 "0.1" young_drop]
    particle_retirement [of True
      "\<lparr>streams = [], splashParticles = [old_drop, young_drop], env = env0\<rparr>"
      earth_gravity 500 "0.1" young_drop]
  by (simp add: spawned_def created_def splash_population_def addNewParticles_def
      stopped_stream_def old_drop_def near_drop_def young_drop_def droplet_def env0_def
      retired_by_age_def captured_iff advanced_def splash_advanced_def
      distanceToSquared_def add_def multiplyScalar_def earth_gravity_def zero_Vector3_def)

text \<open>
  C7 (as amended). After a simulation step, every splash particle that was in the population
  when the step began and survives it has a y-position of at least 0: when its integrated
  position falls below 0 it is put at y = 0, with its y-velocity 0 and the other two
  components of its velocity halved. These particles stand first in the population; behind
  them stand the particles created during the step, which the step does not clamp.
\<close>

theorem splash_survivors_not_below_ground:
  assumes "enabled"
  shows "(\<forall>q \<in> set (take (length (filter (\<lambda>p. \<not> retired_by_age delta p)
                                      (splash_population st)))
                         (splashParticles (useFrame enabled gravity maxParticles delta st))).
            0 \<le> vec_y (p_position q))
       \<and> take (length (filter (\<lambda>p. \<not> retired_by_age delta p) (splash_population st)))
           (splashParticles (useFrame enabled gravity maxParticles delta st))
         = map (splash_advanced gravity delta)
             (filter (\<lambda>p. \<not> retired_by_age delta p) (splash_population st))
       \<and> drop (length (filter (\<lambda>p. \<not> retired_by_age delta p) (splash_population st)))
           (splashParticles (useFrame enabled gravity maxParticles delta st))
         = created gravity maxParticles delta st
       \<and> (vec_y (splash_position gravity delta p) < 0 \<longrightarrow>
            vec_y (p_position (splash_advanced gravity delta p)) = 0
            \<and> vec_y (p_velocity (splash_advanced gravity delta p)) = 0
            \<and> vec_x (p_velocity (splash_advanced gravity delta p))
                = vec_x (splash_velocity gravity delta p) * 0.5
            \<and> vec_z (p_velocity (splash_advanced gravity delta p))
                = vec_z (splash_velocity gravity delta p) * 0.5)"
proof -
  let ?kept = "filter (\<lambda>p. \<not> retired_by_age delta p) (splash_population st)"
  let ?after = "splashParticles (useFrame enabled gravity maxParticles delta st)"
  from assms have a: "?after = map (splash_advanced gravity delta) ?kept
      @ created gravity maxParticles delta st"
    by (rule useFrame_splashParticles)
  then have t: "take (length ?kept) ?after = map (splash_advanced gravity delta) ?kept"
    and d: "drop (length ?kept) ?after = created gravity maxParticles delta st"
    by simp_all
  have g: "\<forall>q \<in> set (take (length ?kept) ?after). 0 \<le> vec_y (p_position q)"
    unfolding t by (auto simp: splash_advanced_ground)
  have c: "vec_y (splash_position gravity delta p) < 0 \<longrightarrow>
            vec_y (p_position (splash_advanced gravity delta p)) = 0
            \<and> vec_y (p_velocity (splash_advanced gravity delta p)) = 0
            \<and> vec_x (p_velocity (splash_advanced gravity delta p))
                = vec_x (splash_velocity gravity delta p) * 0.5
            \<and> vec_z (p_velocity (splash_advanced gravity delta p))
                = vec_z (splash_velocity gravity delta p) * 0.5"
    by (simp add: splash_advanced_def multiplyScalar_def)
  from g t d c show ?thesis by blast
qed

theorem splash_survivors_not_below_ground_witness:
  "splashParticles (useFrame True earth_gravity 500 0.1
       \<lparr>streams = [], splashParticles = [low_splash], env = env0\<rparr>)
     = [low_splash\<lparr>p_position := \<lparr>vec_x = 0.098, vec_y = 0, vec_z = 0\<rparr>,
                    p_velocity := \<lparr>vec_x = 0.49, vec_y = 0, vec_z = 0\<rparr>,
                    p_age := 0.1\<rparr>]
   \<and> vec_y (splash_position earth_gravity 0.1 low_splash) < 0"
  using splash_survivors_not_below_ground [of True "0.1"
      "\<lparr>streams = [], splashParticles = [low_splash], env = env0\<rparr>" earth_gravity 500
      low_splash]
  by (simp add: useFrame_def updateSplashParticles_def updateSplashParticle_def
      splash_population_def env0_def splash_position_def splash_velocity_def low_splash_def
      droplet_def add_def multiplyScalar_def earth_gravity_def Let_def)

text \<open>Where \<^verbatim>\<open>createSplash\<close> puts its particles, and what it leaves in the queue.\<close>

lemma createParticle_position:
  "p_position (fst (createParticle pos velocity color psize lifetime e)) = pos"
  by (simp add: createParticle_def)

lemma createParticle_queue:
  "queuedSplash (snd (createParticle pos velocity color psize lifetime e)) = queuedSplash e"
  by (simp add: createParticle_def)

lemma Math_random_queue: "queuedSplash (snd (Math_random e)) = queuedSplash e"
  by (simp add: Math_random_def)

lemma createSplashParticle_position:
  "p_position (fst (createSplashParticle pos color count i e)) = pos"
  unfolding createSplashParticle_def Let_def case_prod_beta
  by (rule createParticle_position)

lemma createSplashParticle_queue:
  "queuedSplash (snd (createSplashParticle pos color count i e)) = queuedSplash e"
  unfolding createSplashParticle_def Let_def case_prod_beta
  by (simp only: createParticle_queue Math_random_queue)

lemma splashLoop_positions:
  "map p_position (fst (splashLoop pos color count idxs e)) = map (\<lambda>_. pos) idxs"
  by (induction idxs arbitrary: e)
     (simp_all add: case_prod_beta createSplashParticle_position)

lemma splashLoop_queue:
  "queuedSplash (snd (splashLoop pos color count idxs e)) = queuedSplash e"
  by (induction idxs arbitrary: e)
     (simp_all add: case_prod_beta createSplashParticle_queue)

lemma createSplash_positions:
  "map p_position (queuedSplash (createSplash pos color count e))
     = map p_position (queuedSplash e) @ replicate count pos"
  using splashLoop_positions [of pos color count "[0..<count]" e]
  by (simp add: createSplash_def case_prod_beta splashLoop_queue map_replicate_const)

lemma updateParticle_captured:
  assumes "captured gravity delta stream p" and "randoms e (drawn e) < 0.3"
  shows "updateParticle gravity delta stream p e =
     (None, createSplash (p_position (advanced gravity delta p)) (s_color stream) 3
              (e\<lparr>drawn := drawn e + 1\<rparr>))"
  using assms
  by (simp add: updateParticle_def captured_def advanced_def Math_random_def Let_def)

text \<open>
  The claim as first stated fails for the particles a step creates: a stream particle caught
  at a target below the ground splashes there, and the three splash particles are in the
  population after the step at y = -1.
\<close>

theorem useFrame_splash_below_ground_counterexample:
  "map (vec_y \<circ> p_position)
     (splashParticles (useFrame True earth_gravity 500 0.1
        \<lparr>streams = [sunk_stream], splashParticles = [], env = env_low\<rparr>))
   = [-1, -1, -1]"
proof -
  have c: "captured earth_gravity 0.1 sunk_stream sinking_drop"
    by (simp add: captured_iff advanced_def sunk_stream_def sinking_drop_def droplet_def
        distanceToSquared_def add_def multiplyScalar_def earth_gravity_def zero_Vector3_def)
  have r: "randoms env_low (drawn env_low) < 0.3"
    by (simp add: env_low_def)
  have p: "p_position (advanced earth_gravity 0.1 sinking_drop)
      = \<lparr>vec_x = 0, vec_y = -1, vec_z = 0\<rparr>"
    by (simp add: advanced_def sinking_drop_def droplet_def add_def multiplyScalar_def
        earth_gravity_def zero_Vector3_def)
  have e: "env_low\<lparr>queuedSplash := []\<rparr> = env_low"
    by (simp add: env_low_def)
  have s: "\<not> isActive sunk_stream" "particles sunk_stream = [sinking_drop]"
    by (simp_all add: sunk_stream_def)
  have "map p_position (queuedSplash (snd (updateParticle earth_gravity 0.1 sunk_stream
      sinking_drop env_low))) = replicate 3 \<lparr>vec_x = 0, vec_y = -1, vec_z = 0\<rparr>"
    by (simp add: updateParticle_captured [OF c r] createSplash_positions p)
       (simp add: env_low_def)
  then have "map p_position (splashParticles (useFrame True earth_gravity 500 0.1
      \<lparr>streams = [sunk_stream], splashParticles = [], env = env_low\<rparr>))
      = replicate 3 \<lparr>vec_x = 0, vec_y = -1, vec_z = 0\<rparr>"
    using s e
    by (simp add: useFrame_def updateStream_def addNewParticles_skipped case_prod_beta
        splash_population_def updateSplashParticles_def)
       (simp add: env_low_def)
  then have "map (vec_y \<circ> p_position) (splashParticles (useFrame True earth_gravity 500 0.1
      \<lparr>streams = [sunk_stream], splashParticles = [], env = env_low\<rparr>))
      = map vec_y (replicate 3 \<lparr>vec_x = 0, vec_y = -1, vec_z = 0\<rparr>)"
    by (simp only: map_map [symmetric])
  then show ?thesis
    by (simp add: numeral_3_eq_3)
qed

lemma updateStream_skips:
  "\<not> isActive s \<Longrightarrow> particles s = [] \<Longrightarrow> updateStream gravity maxParticles delta s e = (s, e)"
  by (simp add: updateStream_def)

lemma updateStream_id: "s_id (fst (updateStream gravity maxParticles delta s e)) = s_id s"
  by (simp add: updateStream_def Let_def split: prod.split)

lemma updateStreams_ids:
  "map s_id (fst (updateStreams gravity maxParticles delta ss e)) = map s_id ss"
proof (induction ss arbitrary: e)
  case Nil
  show ?case by simp
next
  case (Cons s ss)
  obtain s' e1 where u: "updateStream gravity maxParticles delta s e = (s', e1)"
    by (cases "updateStream gravity maxParticles delta s e")
  with updateStream_id [of gravity maxParticles delta s e] have "s_id s' = s_id s" by simp
  with u Cons.IH [of e1] show ?case by (simp add: case_prod_beta)
qed

lemma updateStreams_keeps:
  assumes "s \<in> set ss" and "\<not> isActive s" and "particles s = []"
  shows "s \<in> set (fst (updateStreams gravity maxParticles delta ss e))"
  using assms(1)
proof (induction ss arbitrary: e)
  case Nil
  then show ?case by simp
next
  case (Cons a ss)
  obtain a' e1 where u: "updateStream gravity maxParticles delta a e = (a', e1)"
    by (cases "updateStream gravity maxParticles delta a e")
  show ?case
  proof (cases "s = a")
    case True
    with u assms(2,3) have "a' = s" by (simp add: updateStream_skips)
    with u show ?thesis by (simp add: case_prod_beta)
  next
    case False
    with Cons.prems have "s \<in> set ss" by simp
    from Cons.IH [OF this, of e1] u show ?thesis by (simp add: case_prod_beta)
  qed
qed

text \<open>
  C8 (as amended). A stream that is not active and has no particles is left in the list by the
  simulation step, which never adds or removes a stream; the stream leaves the list through
  the delayed filter of \<^verbatim>\<open>stopPour\<close>, which drops every stream of that id.
\<close>

theorem stopped_empty_stream_kept:
  assumes "s \<in> set (streams st)" and "\<not> isActive s" and "particles s = []"
  shows "s \<in> set (streams (useFrame enabled gravity maxParticles delta st))
       \<and> map s_id (streams (useFrame enabled gravity maxParticles delta st))
           = map s_id (streams st)
       \<and> s \<notin> set (stopPour_timeout (s_id s)
                     (streams (useFrame enabled gravity maxParticles delta st)))"
proof (intro conjI)
  show "s \<in> set (streams (useFrame enabled gravity maxParticles delta st))"
    using updateStreams_keeps [OF assms, of gravity maxParticles delta
        "(env st)\<lparr>queuedSplash := []\<rparr>"] assms(1)
    by (simp add: useFrame_def case_prod_beta)
  show "map s_id (streams (useFrame enabled gravity maxParticles delta st))
      = map s_id (streams st)"
    using updateStreams_ids [of gravity maxParticles delta "streams st"
        "(env st)\<lparr>queuedSplash := []\<rparr>"]
    by (simp add: useFrame_def case_prod_beta)
  show "s \<notin> set (stopPour_timeout (s_id s)
       (streams (useFrame enabled gravity maxParticles delta st)))"
    by (simp add: stopPour_timeout_def)
qed

theorem stopped_empty_stream_kept_witness:
  "stopped_stream [] \<in> set (streams \<lparr>streams = [stopped_stream []], splashParticles = [], env = env0\<rparr>)
   \<and> \<not> isActive (stopped_stream []) \<and> particles (stopped_stream []) = []
   \<and> stopped_stream [] \<in> set (streams (useFrame True earth_gravity 500 0.1
        \<lparr>streams = [stopped_stream []], splashParticles = [], env = env0\<rparr>))
   \<and> stopPour_timeout ''stream-0'' (streams (useFrame True earth_gravity 500 0.1
        \<lparr>streams = [stopped_stream []], splashParticles = [], env = env0\<rparr>)) = []"
  using stopped_empty_stream_kept [of "stopped_stream []"
      "\<lparr>streams = [stopped_stream []], splashParticles = [], env = env0\<rparr>"
      True earth_gravity 500 "0.1"]
  by (simp add: stopped_stream_def useFrame_def updateStream_def stopPour_timeout_def)

text \<open>
  The claim as first stated fails: the step returns a stopped, empty stream as it is, and the
  stream is still in the list afterwards.
\<close>

theorem useFrame_keeps_stopped_stream_counterexample:
  "\<not> isActive (stopped_stream []) \<and> particles (stopped_stream []) = []
   \<and> streams (useFrame True earth_gravity 500 0.1
        \<lparr>streams = [stopped_stream []], splashParticles = [], env = env0\<rparr>)
     = [stopped_stream []]"
  by (simp add: stopped_stream_def useFrame_def updateStream_def)

end
